theory Spec2Isabelle
  imports Main
begin

section \<open>The GoldenGate status dispatcher (gg\_status.py)\<close>

text \<open>
  The script builds a shell command line, runs it through \<open>subprocess.run\<close> and prints
  what comes back. Python strings are \<open>string\<close>s; the four characters that matter for
  shell quoting are named by their code.
\<close>

abbreviation dq :: char where "dq \<equiv> CHR 0x22"  \<comment> \<open>the double quote\<close>
abbreviation sq :: char where "sq \<equiv> CHR 0x27"  \<comment> \<open>the single quote\<close>
abbreviation bs :: char where "bs \<equiv> CHR 0x5C"  \<comment> \<open>the backslash\<close>
abbreviation nl :: char where "nl \<equiv> CHR 0x0A"  \<comment> \<open>the newline\<close>

subsection \<open>The outside world\<close>

text \<open>
  \<open>subprocess.run(..., stdout=PIPE, stderr=PIPE, universal_newlines=True)\<close> yields a
  completed process: the exit status and the two captured streams.
\<close>

record completed_process =
  returncode :: int
  stdout :: string
  stderr :: string

text \<open>
  The exceptions that can leave \<open>subprocess.run\<close>: \<open>CalledProcessError\<close>, which
  \<open>check=True\<close> raises on a nonzero exit status and which carries the exit status and
  the captured streams; \<open>OSError\<close>, when the local shell cannot be started (a command line
  that is too long, for one); \<open>UnicodeDecodeError\<close>, when a captured stream is not text in
  the locale's encoding.
\<close>

datatype exception = CalledProcessError completed_process | OSError | UnicodeDecodeError

text \<open>
  The local shell, the network and the remote host are a parameter of the model: a
  function from the command line to what the run comes to, a completed process or an
  exception raised before there is one.
\<close>

type_synonym shell = "string \<Rightarrow> exception + completed_process"

text \<open>\<open>subprocess.run(line, shell=True, check=True, ...)\<close>.\<close>

definition subprocess_run :: "shell \<Rightarrow> string \<Rightarrow> exception + completed_process" where
  "subprocess_run sh line =
     (case sh line of
        Inl e \<Rightarrow> Inl e
      | Inr result \<Rightarrow>
          if returncode result \<noteq> 0 then Inl (CalledProcessError result) else Inr result)"

text \<open>
  What the process does to its surroundings: the command lines it handed to
  \<open>subprocess.run\<close>, in order, and the strings it printed, in order.
\<close>

record world =
  ssh_calls :: "string list"
  printed :: "string list"

definition print :: "string \<Rightarrow> world \<Rightarrow> world" where
  "print s w = w\<lparr>printed := printed w @ [s]\<rparr>"

text \<open>\<open>os.getenv(key, default)\<close> over the environment, a map from names to values.\<close>

definition getenv :: "(string \<rightharpoonup> string) \<Rightarrow> string \<Rightarrow> string \<Rightarrow> string" where
  "getenv env key fallback = (case env key of None \<Rightarrow> fallback | Some v \<Rightarrow> v)"

text \<open>\<open>s.replace(old, new)\<close> for a one-character \<open>old\<close>: every occurrence is replaced.\<close>

primrec replace_char :: "char \<Rightarrow> string \<Rightarrow> string \<Rightarrow> string" where
  "replace_char old new [] = []"
| "replace_char old new (c # cs) =
     (if c = old then new @ replace_char old new cs else c # replace_char old new cs)"

subsection \<open>The Remote Session Executor\<close>

text \<open>
  The f-string of \<open>run_ssh_command\<close>, with \<open>HOST\<close> and \<open>COMMAND\<close> for its two fields:
  \<^verbatim>\<open>ssh -tt pulseuser@HOST 'sudo su - ggudb -c "COMMAND"'\<close>
\<close>

definition ssh_command :: "string \<Rightarrow> string \<Rightarrow> string" where
  "ssh_command host command =
     ''ssh -tt pulseuser@'' @ host @ '' '' @ [sq] @ ''sudo su - ggudb -c '' @ [dq]
       @ command @ [dq, sq]"

text \<open>
  The \<open>try\<close> of \<open>run_ssh_command\<close>: the captured standard output when the run
  completes; the one handler catches \<open>CalledProcessError\<close> and returns the captured
  standard error behind a fixed prefix; any other exception leaves the function.
\<close>

definition run_ssh_command ::
    "shell \<Rightarrow> string \<Rightarrow> string \<Rightarrow> world \<Rightarrow> (exception + string) \<times> world" where
  "run_ssh_command sh host command w =
     (let line = ssh_command host command;
          w' = w\<lparr>ssh_calls := ssh_calls w @ [line]\<rparr>
      in case subprocess_run sh line of
           Inr result \<Rightarrow> (Inr (stdout result), w')
         | Inl (CalledProcessError e) \<Rightarrow> (Inr (''Error executing command: '' @ stderr e), w')
         | Inl OSError \<Rightarrow> (Inl OSError, w')
         | Inl UnicodeDecodeError \<Rightarrow> (Inl UnicodeDecodeError, w'))"

subsection \<open>The Console Script Builder\<close>

text \<open>
  Strategy 1, the text \<open>run_ggsci_command\<close> builds before it calls the executor:
  the double quotes of the command are replaced by backslash and double quote, and the
  result is put between single quotes after \<open>echo\<close>.
\<close>

definition gg_script :: "string \<Rightarrow> string" where
  "gg_script command =
     (let command' = replace_char dq [bs, dq] command
      in ''echo '' @ [sq] @ command' @ [sq] @ '' | ggsci'')"

definition run_ggsci_command ::
    "shell \<Rightarrow> string \<Rightarrow> string \<Rightarrow> world \<Rightarrow> (exception + string) \<times> world" where
  "run_ggsci_command sh host command w = run_ssh_command sh host (gg_script command) w"

definition get_info_all :: "shell \<Rightarrow> string \<Rightarrow> world \<Rightarrow> (exception + string) \<times> world" where
  "get_info_all sh host w = run_ggsci_command sh host ''info all'' w"

definition get_info_credentialstore ::
    "shell \<Rightarrow> string \<Rightarrow> world \<Rightarrow> (exception + string) \<times> world" where
  "get_info_credentialstore sh host w = run_ggsci_command sh host ''info credentialstore'' w"

text \<open>
  Strategy 2, the triple-quoted template of \<open>get_lag_info\<close> after
  \<open>.format(cred=credentialstore)\<close>. The template has the one field \<open>{cred}\<close> and no
  other brace, and \<open>format\<close> does not look into the value it inserts, so the result is
  the template's text with the alias in the field's place. Each line of the source is a
  line here.
\<close>

definition temp_script :: "string \<Rightarrow> string" where
  "temp_script cred =
     ''#!/bin/bash'' @ [nl] @
     ''# Create a temporary file with GGSCI commands'' @ [nl] @
     ''cat > /tmp/gg_commands.txt << '' @ [sq] @ ''EOF'' @ [sq] @ [nl] @
     ''dblogin useridalias '' @ cred @ [nl] @
     ''lag'' @ [nl] @
     ''info all'' @ [nl] @
     ''exit'' @ [nl] @
     ''EOF'' @ [nl] @
     [nl] @
     ''# Run GGSCI with the commands file'' @ [nl] @
     ''ggsci < /tmp/gg_commands.txt'' @ [nl] @
     ''rm -f /tmp/gg_commands.txt'' @ [nl]"

definition get_lag_info ::
    "shell \<Rightarrow> string \<Rightarrow> string \<Rightarrow> world \<Rightarrow> (exception + string) \<times> world" where
  "get_lag_info sh host credentialstore w = run_ssh_command sh host (temp_script credentialstore) w"

subsection \<open>The Command Dispatcher\<close>

text \<open>
  The namespace \<open>parse_args\<close> returns. \<open>--credstore\<close> is optional: \<open>None\<close> when it was
  not given. \<open>parse_args\<close> itself ends the process on a command line it rejects, before
  any of the code below runs; the model starts from a namespace.
\<close>

record namespace =
  args_host :: string
  args_command :: string
  args_credstore :: "string option"

text \<open>The host name \<open>main\<close> computes from \<open>args.host\<close> and the environment.\<close>

definition hostname :: "(string \<rightharpoonup> string) \<Rightarrow> namespace \<Rightarrow> string" where
  "hostname env args =
     (if args_host args = ''gg1'' then getenv env ''GG1_HOST'' ''testdb-ho-03.com''
      else getenv env ''GG2_HOST'' ''testdb-ho-06.com'')"

text \<open>
  The \<open>if\<close>/\<open>elif\<close> chain of \<open>main\<close>. \<open>not args.credstore\<close> holds for \<open>None\<close> and for
  the empty string. \<open>main\<close> has no handler: an exception that leaves a builder leaves
  \<open>main\<close> too, before the \<open>print\<close>. Otherwise \<open>main\<close> returns \<open>None\<close>.
\<close>

definition main ::
    "shell \<Rightarrow> (string \<rightharpoonup> string) \<Rightarrow> namespace \<Rightarrow> world \<Rightarrow> (exception + unit) \<times> world" where
  "main sh env args w =
     (let h = hostname env args in
      if args_command args = ''info'' then
        (case get_info_all sh h w of
           (Inl e, w') \<Rightarrow> (Inl e, w')
         | (Inr result, w') \<Rightarrow> (Inr (), print result w'))
      else if args_command args = ''credstore'' then
        (case get_info_credentialstore sh h w of
           (Inl e, w') \<Rightarrow> (Inl e, w')
         | (Inr result, w') \<Rightarrow> (Inr (), print result w'))
      else if args_command args = ''lag'' then
        (case args_credstore args of
           None \<Rightarrow> (Inr (), print ''Error: --credstore is required for lag command'' w)
         | Some cred \<Rightarrow>
             if cred = [] then (Inr (), print ''Error: --credstore is required for lag command'' w)
             else (case get_lag_info sh h cred w of
                     (Inl e, w') \<Rightarrow> (Inl e, w')
                   | (Inr result, w') \<Rightarrow> (Inr (), print result w')))
      else (Inr (), w))"

text \<open>
  The script's last two lines call \<open>main()\<close>. When \<open>main\<close> returns, the script falls off
  its end and the interpreter ends with status 0; when an exception leaves \<open>main\<close>, the
  interpreter prints the traceback and ends with status 1. Nothing in the script calls
  \<open>sys.exit\<close>.
\<close>

definition gg_status ::
    "shell \<Rightarrow> (string \<rightharpoonup> string) \<Rightarrow> namespace \<Rightarrow> world \<Rightarrow> int \<times> world" where
  "gg_status sh env args w =
     (case main sh env args w of
        (Inl e, w') \<Rightarrow> (1, w')
      | (Inr u, w') \<Rightarrow> (0, w'))"

subsection \<open>Reading a script as the shell does\<close>

text \<open>The lines of a text, as \<open>s.split('\n')\<close> gives them: a text with n newlines has n + 1 lines.\<close>

fun split_lines :: "string \<Rightarrow> string list" where
  "split_lines [] = [[]]"
| "split_lines (c # cs) =
     (if c = nl then [] # split_lines cs
      else (case split_lines cs of [] \<Rightarrow> [[c]] | l # ls \<Rightarrow> (c # l) # ls))"

text \<open>
  A single-quoted word of the shell: after the opening quote everything up to the next
  single quote belongs to the word, and no character, the backslash included, is special.
\<close>

definition single_quoted_body :: "string \<Rightarrow> string" where
  "single_quoted_body s = takeWhile (\<lambda>c. c \<noteq> sq) s"

text \<open>
  The words of a command line, by the quoting rules of the POSIX shell. Outside quotes a
  blank ends a word, a backslash makes the next character an ordinary one, and a quote
  opens a quoted part of the word. Between single quotes every character is ordinary up
  to the next single quote. Between double quotes a backslash keeps its meaning only in
  front of a double quote, a backslash, a dollar sign, a backquote or a newline. A line
  that ends inside quotes is an error. Expansions and operators are not read here: they
  are ordinary characters.
\<close>

datatype quoting = Unquoted | Single_quoted | Double_quoted

fun sh_scan :: "quoting \<Rightarrow> string \<Rightarrow> bool \<Rightarrow> string \<Rightarrow> string list option" where
  "sh_scan Unquoted word started [] = Some (if started then [word] else [])"
| "sh_scan Single_quoted word started [] = None"
| "sh_scan Double_quoted word started [] = None"
| "sh_scan Unquoted word started (c # cs) =
     (if c = CHR '' '' \<or> c = CHR 0x09 then
        (case sh_scan Unquoted [] False cs of
           None \<Rightarrow> None
         | Some ws \<Rightarrow> Some (if started then word # ws else ws))
      else if c = sq then sh_scan Single_quoted word True cs
      else if c = dq then sh_scan Double_quoted word True cs
      else if c = bs then
        (case cs of
           [] \<Rightarrow> Some [word @ [bs]]
         | d # ds \<Rightarrow>
             if d = nl then sh_scan Unquoted word started ds
             else sh_scan Unquoted (word @ [d]) True ds)
      else sh_scan Unquoted (word @ [c]) True cs)"
| "sh_scan Single_quoted word started (c # cs) =
     (if c = sq then sh_scan Unquoted word True cs
      else sh_scan Single_quoted (word @ [c]) True cs)"
| "sh_scan Double_quoted word started (c # cs) =
     (if c = dq then sh_scan Unquoted word True cs
      else if c = bs then
        (case cs of
           [] \<Rightarrow> None
         | d # ds \<Rightarrow>
             if d = nl then sh_scan Double_quoted word True ds
             else if d = dq \<or> d = bs \<or> d = CHR 0x24 \<or> d = CHR 0x60
               then sh_scan Double_quoted (word @ [d]) True ds
             else sh_scan Double_quoted (word @ [bs, d]) True ds)
      else sh_scan Double_quoted (word @ [c]) True cs)"

definition sh_words :: "string \<Rightarrow> string list option" where
  "sh_words line = sh_scan Unquoted [] False line"

text \<open>
  The body of a here-document: the lines after the line that opens it, up to the first
  line that is the terminator.
\<close>

definition heredoc_body :: "string \<Rightarrow> string \<Rightarrow> string list \<Rightarrow> string list" where
  "heredoc_body opener terminator ls =
     takeWhile (\<lambda>l. l \<noteq> terminator) (drop 1 (dropWhile (\<lambda>l. l \<noteq> opener) ls))"

text \<open>
  What a shell that runs the script of \<open>get_lag_info\<close> writes to the temporary file:
  the body of the here-document that the script's third line opens.
\<close>

definition gg_commands_file :: "string \<Rightarrow> string list" where
  "gg_commands_file cred =
     heredoc_body (''cat > /tmp/gg_commands.txt << '' @ [sq] @ ''EOF'' @ [sq]) ''EOF''
       (split_lines (temp_script cred))"

text \<open>
  The command sequence \<open>get_lag_info\<close> embeds between the line that opens the
  here-document and its own terminator line: lines 49 to 52 of the template.
\<close>

definition gg_commands :: "string \<Rightarrow> string" where
  "gg_commands cred =
     ''dblogin useridalias '' @ cred @ [nl] @
     ''lag'' @ [nl] @
     ''info all'' @ [nl] @
     ''exit''"

subsection \<open>Test doubles for the executor's shell\<close>

text \<open>A shell on which every command fails with exit status 1 and \<open>auth failed\<close> on standard error.\<close>

definition auth_failed_shell :: shell where
  "auth_failed_shell line = Inr \<lparr>returncode = 1, stdout = [], stderr = ''auth failed''\<rparr>"

text \<open>A shell whose output is not text in the locale's encoding.\<close>

definition undecodable_shell :: shell where
  "undecodable_shell line = Inl UnicodeDecodeError"

section \<open>Lines of a text\<close>

lemma split_lines_not_Nil: "split_lines s \<noteq> []"
  by (induction s) (auto split: list.splits)

lemma split_lines_no_newline: "nl \<notin> set s \<Longrightarrow> split_lines s = [s]"
  by (induction s) auto

lemma split_lines_append_newline:
  "split_lines (xs @ nl # ys) = split_lines xs @ split_lines ys"
proof (induction xs)
  case Nil
  show ?case by simp
next
  case (Cons c xs)
  obtain l ls where "split_lines xs = l # ls"
    using split_lines_not_Nil [of xs] by (cases "split_lines xs") auto
  with Cons show ?case by simp
qed

text \<open>Text without a newline in front of a text lengthens its first line.\<close>

lemma split_lines_prepend:
  "nl \<notin> set p \<Longrightarrow> split_lines (p @ s) = (p @ hd (split_lines s)) # tl (split_lines s)"
proof (induction p)
  case Nil
  show ?case using split_lines_not_Nil [of s] by simp
next
  case (Cons c p)
  then show ?case by auto
qed

section \<open>The script of the lag intent\<close>

lemma temp_script_lines:
  "split_lines (temp_script cred) =
     [''#!/bin/bash'',
      ''# Create a temporary file with GGSCI commands'',
      ''cat > /tmp/gg_commands.txt << '' @ [sq] @ ''EOF'' @ [sq]]
     @ split_lines (''dblogin useridalias '' @ cred)
     @ [''lag'', ''info all'', ''exit'', ''EOF'', [],
        ''# Run GGSCI with the commands file'',
        ''ggsci < /tmp/gg_commands.txt'',
        ''rm -f /tmp/gg_commands.txt'', []]"
proof -
  have a: "temp_script cred =
     (''#!/bin/bash'' @ nl # ''# Create a temporary file with GGSCI commands'' @ nl #
     ''cat > /tmp/gg_commands.txt << '' @ [sq] @ ''EOF'' @ [sq]) @ nl #
     (''dblogin useridalias '' @ cred) @ nl #
     (''lag'' @ nl # ''info all'' @ nl # ''exit'' @ nl # ''EOF'' @ nl # nl #
     ''# Run GGSCI with the commands file'' @ nl #
     ''ggsci < /tmp/gg_commands.txt'' @ nl #
     ''rm -f /tmp/gg_commands.txt'' @ [nl])"
    by (simp add: temp_script_def)
  show ?thesis
    unfolding a split_lines_append_newline [of _ "(''dblogin useridalias '' @ cred) @ _"]
      split_lines_append_newline [of "''dblogin useridalias '' @ cred"]
    by simp
qed

text \<open>The embedded command sequence is the part of the script between its third line and its \<open>EOF\<close> line.\<close>

lemma temp_script_gg_commands:
  "temp_script cred =
     ''#!/bin/bash'' @ [nl] @
     ''# Create a temporary file with GGSCI commands'' @ [nl] @
     ''cat > /tmp/gg_commands.txt << '' @ [sq] @ ''EOF'' @ [sq] @ [nl] @
     gg_commands cred @ [nl] @
     ''EOF'' @ [nl] @
     [nl] @
     ''# Run GGSCI with the commands file'' @ [nl] @
     ''ggsci < /tmp/gg_commands.txt'' @ [nl] @
     ''rm -f /tmp/gg_commands.txt'' @ [nl]"
  by (simp add: temp_script_def gg_commands_def)

lemma gg_commands_lines:
  "split_lines (gg_commands cred) =
     (''dblogin useridalias '' @ hd (split_lines cred)) # tl (split_lines cred)
       @ [''lag'', ''info all'', ''exit'']"
proof -
  have a: "gg_commands cred =
      (''dblogin useridalias '' @ cred) @ nl # (''lag'' @ nl # ''info all'' @ nl # ''exit'')"
    by (simp add: gg_commands_def)
  have b: "split_lines (''dblogin useridalias '' @ cred) =
      (''dblogin useridalias '' @ hd (split_lines cred)) # tl (split_lines cred)"
    by (rule split_lines_prepend) simp
  show ?thesis
    unfolding a split_lines_append_newline b by simp
qed

section \<open>The executor\<close>

lemma run_ssh_command_calls:
  "ssh_calls (snd (run_ssh_command sh host command w)) = ssh_calls w @ [ssh_command host command]"
  by (simp add: run_ssh_command_def Let_def split: sum.splits exception.splits)

lemma run_ssh_command_printed:
  "printed (snd (run_ssh_command sh host command w)) = printed w"
  by (simp add: run_ssh_command_def Let_def split: sum.splits exception.splits)

lemma run_ssh_command_failure:
  "sh (ssh_command host command) = Inr p \<Longrightarrow> returncode p \<noteq> 0 \<Longrightarrow>
   fst (run_ssh_command sh host command w) = Inr (''Error executing command: '' @ stderr p)"
  by (simp add: run_ssh_command_def subprocess_run_def Let_def)

text \<open>An exception other than \<open>CalledProcessError\<close> is not caught.\<close>

lemma run_ssh_command_uncaught:
  "sh (ssh_command host command) = Inl e \<Longrightarrow> \<forall>p. e \<noteq> CalledProcessError p \<Longrightarrow>
   fst (run_ssh_command sh host command w) = Inl e"
  by (cases e) (simp_all add: run_ssh_command_def subprocess_run_def Let_def)

text \<open>When no other exception is raised, the executor returns a string.\<close>

lemma run_ssh_command_caught:
  assumes "\<And>e. sh (ssh_command host command) = Inl e \<Longrightarrow> \<exists>p. e = CalledProcessError p"
  shows "\<exists>s. fst (run_ssh_command sh host command w) = Inr s"
proof (cases "sh (ssh_command host command)")
  case (Inl e)
  with assms obtain p where "e = CalledProcessError p" by blast
  with Inl show ?thesis
    by (simp add: run_ssh_command_def subprocess_run_def Let_def)
next
  case (Inr p)
  then show ?thesis
    by (simp add: run_ssh_command_def subprocess_run_def Let_def)
qed

section \<open>The builder: the script of the lag intent\<close>

text \<open>
  Claim C1. For the lag intent, whatever the host and the alias, the script handed to the
  executor has these lines, in this order: after the three opening lines the login text
  \<open>dblogin useridalias\<close> followed by the alias, then \<open>lag\<close>, \<open>info all\<close>, \<open>exit\<close>,
  the terminator, then the call of \<open>ggsci\<close> with \<open>/tmp/gg_commands.txt\<close> as its input,
  then the removal of that same file.
\<close>

theorem lag_script_order:
  "get_lag_info sh host cred w = run_ssh_command sh host (temp_script cred) w
   \<and> ssh_calls (snd (get_lag_info sh host cred w)) = ssh_calls w @ [ssh_command host (temp_script cred)]
   \<and> split_lines (temp_script cred) =
     [''#!/bin/bash'',
      ''# Create a temporary file with GGSCI commands'',
      ''cat > /tmp/gg_commands.txt << '' @ [sq] @ ''EOF'' @ [sq]]
     @ split_lines (''dblogin useridalias '' @ cred)
     @ [''lag'', ''info all'', ''exit'', ''EOF'', [],
        ''# Run GGSCI with the commands file'',
        ''ggsci < /tmp/gg_commands.txt'',
        ''rm -f /tmp/gg_commands.txt'', []]"
  using temp_script_lines [of cred] run_ssh_command_calls [of sh host "temp_script cred" w]
  by (simp only: get_lag_info_def simp_thms)

text \<open>
  Claim C7. For the alias \<open>PROD_CRED\<close> the here-document of the generated script holds
  the line \<open>dblogin useridalias PROD_CRED\<close>, the alias as it was given; it is the fourth
  line of the script and the first of the four lines written to the temporary file.
\<close>

theorem prod_cred_login_line:
  "gg_commands_file ''PROD_CRED'' = [''dblogin useridalias PROD_CRED'', ''lag'', ''info all'', ''exit'']
   \<and> split_lines (temp_script ''PROD_CRED'') ! 3 = ''dblogin useridalias PROD_CRED''
   \<and> ''dblogin useridalias PROD_CRED'' \<in> set (split_lines (gg_commands ''PROD_CRED''))"
  by (simp add: gg_commands_file_def heredoc_body_def temp_script_def gg_commands_def)

text \<open>An alias without a newline gives a file of exactly four commands.\<close>

lemma gg_commands_file_no_newline:
  "nl \<notin> set cred \<Longrightarrow>
   gg_commands_file cred = [''dblogin useridalias '' @ cred, ''lag'', ''info all'', ''exit'']"
  by (simp add: gg_commands_file_def heredoc_body_def temp_script_lines split_lines_no_newline)

text \<open>
  Claim C4, as stated: for every alias the terminator \<open>EOF\<close> is not a line of the
  embedded command sequence. It fails for an alias with a line \<open>EOF\<close> of its own: the
  alias is inserted as it is, and the here-document then ends after the login line.
\<close>

theorem heredoc_terminator_counterexample:
  "''EOF'' \<in> set (split_lines (gg_commands (''x'' @ [nl] @ ''EOF'')))
   \<and> gg_commands_file (''x'' @ [nl] @ ''EOF'') = [''dblogin useridalias x'']"
  by (simp add: gg_commands_def gg_commands_file_def heredoc_body_def temp_script_def)

text \<open>
  Claim C4, amended: the terminator \<open>EOF\<close> is a line of the embedded command sequence
  exactly when a line of the alias after its first one is \<open>EOF\<close>; so for every alias
  without a newline it is not.
\<close>

theorem heredoc_terminator_collision:
  "(''EOF'' \<in> set (split_lines (gg_commands cred))) = (''EOF'' \<in> set (tl (split_lines cred)))
   \<and> (nl \<notin> set cred \<longrightarrow> ''EOF'' \<notin> set (split_lines (gg_commands cred)))"
proof -
  have a: "(''EOF'' \<in> set (split_lines (gg_commands cred))) = (''EOF'' \<in> set (tl (split_lines cred)))"
    unfolding gg_commands_lines by auto
  have b: "nl \<notin> set cred \<Longrightarrow> tl (split_lines cred) = []"
    by (simp add: split_lines_no_newline)
  from a b show ?thesis by auto
qed

theorem heredoc_terminator_collision_witness:
  "nl \<notin> set ''PROD_CRED'' \<and> ''EOF'' \<notin> set (split_lines (gg_commands ''PROD_CRED''))"
  using heredoc_terminator_collision [of "''PROD_CRED''"] by simp

section \<open>The builder: the single-line commands\<close>

text \<open>
  Claim C6. For the two intents other than lag the builder's output is \<open>echo\<close>, the
  command between single quotes, and the pipe into \<open>ggsci\<close>: one line, with no double
  quote in it at all, and this is the text handed to the executor.
\<close>

theorem single_line_intents:
  "gg_script ''info all'' = ''echo '' @ [sq] @ ''info all'' @ [sq] @ '' | ggsci''
   \<and> gg_script ''info credentialstore'' = ''echo '' @ [sq] @ ''info credentialstore'' @ [sq] @ '' | ggsci''
   \<and> nl \<notin> set (gg_script ''info all'') \<and> dq \<notin> set (gg_script ''info all'')
   \<and> nl \<notin> set (gg_script ''info credentialstore'') \<and> dq \<notin> set (gg_script ''info credentialstore'')
   \<and> get_info_all sh host w = run_ssh_command sh host (gg_script ''info all'') w
   \<and> get_info_credentialstore sh host w = run_ssh_command sh host (gg_script ''info credentialstore'') w"
  by (simp add: gg_script_def get_info_all_def get_info_credentialstore_def run_ggsci_command_def)

text \<open>What the replacement does to the quotes of a command.\<close>

lemma replace_dq_quote_preceded:
  "i < length (replace_char dq [bs, dq] cs) \<Longrightarrow> replace_char dq [bs, dq] cs ! i = dq \<Longrightarrow>
   0 < i \<and> replace_char dq [bs, dq] cs ! (i - 1) = bs"
proof (induction cs arbitrary: i)
  case Nil
  then show ?case by simp
next
  case (Cons c cs)
  show ?case
  proof (cases "c = dq")
    case True
    show ?thesis
    proof (cases "i < 2")
      case True
      with Cons.prems \<open>c = dq\<close> show ?thesis by (cases i) auto
    next
      case False
      then obtain j where j: "i = Suc (Suc j)" by (metis less_2_cases_iff not0_implies_Suc)
      with Cons.prems \<open>c = dq\<close> have "j < length (replace_char dq [bs, dq] cs)"
        and "replace_char dq [bs, dq] cs ! j = dq" by auto
      from Cons.IH [OF this] obtain k where "j = Suc k" "replace_char dq [bs, dq] cs ! k = bs"
        by (cases j) auto
      with j \<open>c = dq\<close> show ?thesis by simp
    qed
  next
    case False
    with Cons.prems obtain j where j: "i = Suc j" by (cases i) auto
    with Cons.prems False have "j < length (replace_char dq [bs, dq] cs)"
      and "replace_char dq [bs, dq] cs ! j = dq" by auto
    from Cons.IH [OF this] obtain k where "j = Suc k" "replace_char dq [bs, dq] cs ! k = bs"
      by (cases j) auto
    with j False show ?thesis by simp
  qed
qed

lemma replace_dq_count:
  "length (filter (\<lambda>c. c = dq) (replace_char dq [bs, dq] cs)) = length (filter (\<lambda>c. c = dq) cs)"
  by (induction cs) auto

lemma replace_dq_sq: "(sq \<in> set (replace_char dq [bs, dq] cs)) = (sq \<in> set cs)"
  by (induction cs) auto

lemma replace_char_append:
  "replace_char old new (xs @ ys) = replace_char old new xs @ replace_char old new ys"
  by (induction xs) auto

lemma gg_script_drop:
  "drop 6 (gg_script command) = replace_char dq [bs, dq] command @ sq # '' | ggsci''"
  by (simp add: gg_script_def)

text \<open>A backslash in front of a double quote of the command ends up as two backslashes in front of it.\<close>

lemma replace_dq_after_backslash: "replace_char dq [bs, dq] [bs, dq] = [bs, bs, dq]"
  by simp

text \<open>
  The executor puts the builder's text between double quotes inside its own single
  quotes. The builder's text begins with \<open>echo\<close> and a single quote, so for every host
  and every command the executor's single-quoted part ends there, in front of the command.
\<close>

lemma executor_quote_closed_by_builder:
  "single_quoted_body (drop (length (''ssh -tt pulseuser@'' @ host @ '' '') + 1)
       (ssh_command host (gg_script command)))
     = ''sudo su - ggudb -c '' @ [dq] @ ''echo ''"
  by (simp add: ssh_command_def gg_script_def single_quoted_body_def)

text \<open>
  Claim C5 says that for a command text with a double quote the builder's output has each
  such quote behind a backslash and the command stays one quoted argument of the
  generated shell line. The builder does put a backslash in front of each double quote
  (\<open>replace_dq_quote_preceded\<close>), but in the line handed to the shell the command is not
  kept in quotes. At the command \<open>info all, report "detail"\<close> the shell reads the line as
  seven words: the command is spread over four of them, and the backslashes are used
  up there, so the double quotes go on to the remote host unescaped.
\<close>

theorem escaped_quotes_shell_words:
  "ssh_command ''testdb-ho-03.com'' (gg_script (''info all, report '' @ [dq] @ ''detail'' @ [dq]))
     = ''ssh -tt pulseuser@testdb-ho-03.com '' @ [sq] @ ''sudo su - ggudb -c '' @ [dq] @ ''echo ''
         @ [sq] @ ''info all, report '' @ [bs, dq] @ ''detail'' @ [bs, dq] @ [sq] @ '' | ggsci'' @ [dq, sq]
   \<and> sh_words (ssh_command ''testdb-ho-03.com''
        (gg_script (''info all, report '' @ [dq] @ ''detail'' @ [dq])))
     = Some [''ssh'', ''-tt'', ''pulseuser@testdb-ho-03.com'',
             ''sudo su - ggudb -c '' @ [dq] @ ''echo info'',
             ''all,'',
             ''report'',
             [dq] @ ''detail'' @ [dq] @ '' | ggsci'' @ [dq]]"
  by (simp add: ssh_command_def gg_script_def sh_words_def)

text \<open>
  Further lines read the same way: a backslash in front of the double quote and a single
  quote in the command both leave a quote open, and the command \<open>info all\<close> of the code
  itself stands outside the quotes, split at its blank.
\<close>

lemma backslash_quote_unterminated:
  "sh_words (ssh_command ''testdb-ho-03.com'' (gg_script [bs, dq])) = None"
  by (simp add: ssh_command_def gg_script_def sh_words_def)

lemma single_quote_unterminated:
  "sh_words (ssh_command ''testdb-ho-03.com'' (gg_script (''it'' @ [sq] @ ''s''))) = None"
  by (simp add: ssh_command_def gg_script_def sh_words_def)

lemma info_all_shell_words:
  "sh_words (ssh_command ''testdb-ho-03.com'' (gg_script ''info all''))
     = Some [''ssh'', ''-tt'', ''pulseuser@testdb-ho-03.com'',
             ''sudo su - ggudb -c '' @ [dq] @ ''echo info'',
             ''all | ggsci'' @ [dq]]"
  by (simp add: ssh_command_def gg_script_def sh_words_def)

text \<open>
  Claim C10. The builder replaces double quotes only: a single quote of the command goes
  into the output as it is, with the text on either side replaced independently. For a
  command with a single quote, the single-quoted argument of \<open>echo\<close> ends at the first
  such quote, so it is a proper part of the replaced command, not the whole of it.
\<close>

theorem single_quote_unescaped:
  "replace_char dq [bs, dq] (xs @ sq # ys) = replace_char dq [bs, dq] xs @ sq # replace_char dq [bs, dq] ys
   \<and> (sq \<in> set command \<longrightarrow>
        sq \<in> set (replace_char dq [bs, dq] command)
        \<and> single_quoted_body (drop 6 (gg_script command))
            = takeWhile (\<lambda>c. c \<noteq> sq) (replace_char dq [bs, dq] command)
        \<and> single_quoted_body (drop 6 (gg_script command)) \<noteq> replace_char dq [bs, dq] command
        \<and> length (single_quoted_body (drop 6 (gg_script command)))
            < length (replace_char dq [bs, dq] command))"
proof -
  have a: "replace_char dq [bs, dq] (xs @ sq # ys)
      = replace_char dq [bs, dq] xs @ sq # replace_char dq [bs, dq] ys"
    by (simp add: replace_char_append)
  have b: "sq \<in> set command \<longrightarrow>
        sq \<in> set (replace_char dq [bs, dq] command)
        \<and> single_quoted_body (drop 6 (gg_script command))
            = takeWhile (\<lambda>c. c \<noteq> sq) (replace_char dq [bs, dq] command)
        \<and> single_quoted_body (drop 6 (gg_script command)) \<noteq> replace_char dq [bs, dq] command
        \<and> length (single_quoted_body (drop 6 (gg_script command)))
            < length (replace_char dq [bs, dq] command)"
  proof
    assume "sq \<in> set command"
    then have m: "sq \<in> set (replace_char dq [bs, dq] command)"
      by (simp add: replace_dq_sq)
    then have e: "\<exists>x \<in> set (replace_char dq [bs, dq] command). \<not> x \<noteq> sq" by auto
    have t: "single_quoted_body (drop 6 (gg_script command))
        = takeWhile (\<lambda>c. c \<noteq> sq) (replace_char dq [bs, dq] command)"
      unfolding gg_script_drop single_quoted_body_def
      using e by (simp add: takeWhile_append1)
    have "dropWhile (\<lambda>c. c \<noteq> sq) (replace_char dq [bs, dq] command) \<noteq> []"
      using m by (simp add: dropWhile_eq_Nil_conv)
    moreover have "length (takeWhile (\<lambda>c. c \<noteq> sq) (replace_char dq [bs, dq] command))
        + length (dropWhile (\<lambda>c. c \<noteq> sq) (replace_char dq [bs, dq] command))
        = length (replace_char dq [bs, dq] command)"
      by (simp only: length_append [symmetric] takeWhile_dropWhile_id)
    ultimately have l: "length (takeWhile (\<lambda>c. c \<noteq> sq) (replace_char dq [bs, dq] command))
        < length (replace_char dq [bs, dq] command)"
      by (cases "dropWhile (\<lambda>c. c \<noteq> sq) (replace_char dq [bs, dq] command)") auto
    from m t l show "sq \<in> set (replace_char dq [bs, dq] command)
        \<and> single_quoted_body (drop 6 (gg_script command))
            = takeWhile (\<lambda>c. c \<noteq> sq) (replace_char dq [bs, dq] command)
        \<and> single_quoted_body (drop 6 (gg_script command)) \<noteq> replace_char dq [bs, dq] command
        \<and> length (single_quoted_body (drop 6 (gg_script command)))
            < length (replace_char dq [bs, dq] command)"
      by auto
  qed
  from a b show ?thesis by blast
qed

theorem single_quote_unescaped_witness:
  "sq \<in> set (''it'' @ [sq] @ ''s'')
   \<and> gg_script (''it'' @ [sq] @ ''s'') = ''echo '' @ [sq] @ ''it'' @ [sq] @ ''s'' @ [sq] @ '' | ggsci''
   \<and> single_quoted_body (drop 6 (gg_script (''it'' @ [sq] @ ''s''))) = ''it''
   \<and> single_quoted_body (drop 6 (gg_script (''it'' @ [sq] @ ''s''))) \<noteq> ''it'' @ [sq] @ ''s''"
  using single_quote_unescaped [of "[]" "[]" "''it'' @ [sq] @ ''s''"]
  by (simp add: gg_script_def)

section \<open>The dispatcher\<close>

text \<open>
  Claim C2. With the command \<open>lag\<close> and no \<open>--credstore\<close>, for every host, environment
  and shell, \<open>main\<close> prints the fixed message and hands no command line to the executor.
\<close>

theorem lag_without_credstore:
  "args_command args = ''lag'' \<Longrightarrow> args_credstore args = None \<Longrightarrow>
   ssh_calls (snd (main sh env args w)) = ssh_calls w
   \<and> printed (snd (main sh env args w)) = printed w @ [''Error: --credstore is required for lag command'']
   \<and> fst (main sh env args w) = Inr ()"
  by (simp add: main_def print_def)

theorem lag_without_credstore_witness:
  "args_command \<lparr>args_host = ''gg1'', args_command = ''lag'', args_credstore = None\<rparr> = ''lag''
   \<and> args_credstore \<lparr>args_host = ''gg1'', args_command = ''lag'', args_credstore = None\<rparr> = None
   \<and> ssh_calls (snd (main auth_failed_shell Map.empty
         \<lparr>args_host = ''gg1'', args_command = ''lag'', args_credstore = None\<rparr>
         \<lparr>ssh_calls = [], printed = []\<rparr>)) = []
   \<and> printed (snd (main auth_failed_shell Map.empty
         \<lparr>args_host = ''gg1'', args_command = ''lag'', args_credstore = None\<rparr>
         \<lparr>ssh_calls = [], printed = []\<rparr>)) = [''Error: --credstore is required for lag command'']"
proof -
  let ?a = "\<lparr>args_host = ''gg1'', args_command = ''lag'', args_credstore = None\<rparr>"
  have h1: "args_command ?a = ''lag''" by simp
  have h2: "args_credstore ?a = None" by simp
  from lag_without_credstore [OF h1 h2, of auth_failed_shell Map.empty "\<lparr>ssh_calls = [], printed = []\<rparr>"]
  have "ssh_calls (snd (main auth_failed_shell Map.empty ?a \<lparr>ssh_calls = [], printed = []\<rparr>)) = []"
    and "printed (snd (main auth_failed_shell Map.empty ?a \<lparr>ssh_calls = [], printed = []\<rparr>))
           = [''Error: --credstore is required for lag command'']"
    by simp_all
  with h1 h2 show ?thesis by blast
qed

text \<open>An empty alias is treated as a missing one.\<close>

lemma lag_with_empty_credstore:
  "args_command args = ''lag'' \<Longrightarrow> args_credstore args = Some [] \<Longrightarrow>
   ssh_calls (snd (main sh env args w)) = ssh_calls w
   \<and> printed (snd (main sh env args w)) = printed w @ [''Error: --credstore is required for lag command'']"
  by (simp add: main_def print_def)

text \<open>
  Claim C3. On a shell where the command ends with a nonzero status and \<open>auth failed\<close> on
  standard error, each of the three intents returns \<open>Error executing command: \<close> followed
  by \<open>auth failed\<close>, and the dispatcher prints that string.
\<close>

theorem auth_failed_every_intent:
  assumes failed: "\<And>line. \<exists>p. sh line = Inr p \<and> returncode p \<noteq> 0 \<and> stderr p = ''auth failed''"
  shows "fst (get_info_all sh host w) = Inr (''Error executing command: '' @ ''auth failed'')
    \<and> fst (get_info_credentialstore sh host w) = Inr (''Error executing command: '' @ ''auth failed'')
    \<and> fst (get_lag_info sh host cred w) = Inr (''Error executing command: '' @ ''auth failed'')
    \<and> (args_command args = ''info'' \<or> args_command args = ''credstore''
         \<or> (args_command args = ''lag'' \<and> args_credstore args = Some cred \<and> cred \<noteq> [])
       \<longrightarrow> printed (snd (main sh env args w)) = printed w @ [''Error executing command: '' @ ''auth failed'']
           \<and> fst (main sh env args w) = Inr ())"
proof -
  have f: "fst (run_ssh_command sh h c w) = Inr (''Error executing command: '' @ ''auth failed'')" for h c
  proof -
    from failed [of "ssh_command h c"] obtain p
      where "sh (ssh_command h c) = Inr p" "returncode p \<noteq> 0" "stderr p = ''auth failed''" by blast
    with run_ssh_command_failure [of sh h c p w] show ?thesis by simp
  qed
  have p: "printed (snd (run_ssh_command sh h c w)) = printed w" for h c
    by (rule run_ssh_command_printed)
  have m: "run_ssh_command sh h c w =
      (Inr (''Error executing command: '' @ ''auth failed''), snd (run_ssh_command sh h c w))" for h c
    using f [of h c] by (metis prod.collapse)
  have g: "printed (snd (case run_ssh_command sh h c w of
              (Inl e, w') \<Rightarrow> (Inl e, w')
            | (Inr result, w') \<Rightarrow> (Inr (), print result w')))
          = printed w @ [''Error executing command: '' @ ''auth failed'']
      \<and> fst (case run_ssh_command sh h c w of
              (Inl e, w') \<Rightarrow> (Inl e, w')
            | (Inr result, w') \<Rightarrow> (Inr (), print result w')) = Inr ()" for h c
    by (subst m, subst m) (simp add: print_def p del: append.simps)
  show ?thesis
    using f g
    by (auto simp add: get_info_all_def get_info_credentialstore_def get_lag_info_def
        run_ggsci_command_def main_def Let_def simp del: append.simps)
qed

theorem auth_failed_every_intent_witness:
  "auth_failed_shell ''any'' = Inr \<lparr>returncode = 1, stdout = [], stderr = ''auth failed''\<rparr>
   \<and> fst (get_info_all auth_failed_shell ''testdb-ho-03.com'' \<lparr>ssh_calls = [], printed = []\<rparr>)
       = Inr ''Error executing command: auth failed''
   \<and> fst (get_info_credentialstore auth_failed_shell ''testdb-ho-03.com'' \<lparr>ssh_calls = [], printed = []\<rparr>)
       = Inr ''Error executing command: auth failed''
   \<and> fst (get_lag_info auth_failed_shell ''testdb-ho-03.com'' ''PROD_CRED'' \<lparr>ssh_calls = [], printed = []\<rparr>)
       = Inr ''Error executing command: auth failed''
   \<and> printed (snd (main auth_failed_shell Map.empty
        \<lparr>args_host = ''gg1'', args_command = ''lag'', args_credstore = Some ''PROD_CRED''\<rparr>
        \<lparr>ssh_calls = [], printed = []\<rparr>)) = [''Error executing command: auth failed'']"
proof -
  have failed: "\<And>line. \<exists>p. auth_failed_shell line = Inr p \<and> returncode p \<noteq> 0 \<and> stderr p = ''auth failed''"
    by (simp add: auth_failed_shell_def)
  have d: "auth_failed_shell ''any'' = Inr \<lparr>returncode = 1, stdout = [], stderr = ''auth failed''\<rparr>"
    by (simp add: auth_failed_shell_def)
  show ?thesis
    using auth_failed_every_intent [of auth_failed_shell, OF failed,
        of "''testdb-ho-03.com''" "\<lparr>ssh_calls = [], printed = []\<rparr>" "''PROD_CRED''"
           "\<lparr>args_host = ''gg1'', args_command = ''lag'', args_credstore = Some ''PROD_CRED''\<rparr>" Map.empty]
      d
    by simp
qed


text \<open>The status of the script is computed from how \<open>main\<close> ends.\<close>

lemma gg_status_fst:
  "fst (gg_status sh env args w) = (case fst (main sh env args w) of Inl e \<Rightarrow> 1 | Inr u \<Rightarrow> 0)"
  by (simp add: gg_status_def split: prod.splits sum.splits)

lemma gg_status_snd: "snd (gg_status sh env args w) = snd (main sh env args w)"
  by (simp add: gg_status_def split: prod.splits sum.splits)

lemma print_after_run:
  "fst r = Inr s \<Longrightarrow>
   fst (case r of (Inl e, w') \<Rightarrow> (Inl e, w') | (Inr result, w') \<Rightarrow> (Inr (), print result w')) = Inr ()"
  by (cases r) simp

lemma main_returns_when_caught:
  assumes "\<And>line e. sh line = Inl e \<Longrightarrow> \<exists>p. e = CalledProcessError p"
  shows "fst (main sh env args w) = Inr ()"
proof -
  have r: "\<exists>s. fst (run_ssh_command sh h c w) = Inr s" for h c
    by (rule run_ssh_command_caught) (rule assms)
  have g: "fst (case run_ssh_command sh h c w of
              (Inl e, w') \<Rightarrow> (Inl e, w')
            | (Inr result, w') \<Rightarrow> (Inr (), print result w')) = Inr ()" for h c
    using r [of h c] print_after_run by blast
  show ?thesis
    using g
    by (auto simp add: main_def get_info_all_def get_info_credentialstore_def get_lag_info_def
        run_ggsci_command_def Let_def split: option.splits)
qed

text \<open>
  Claim C9, as stated: the script ends with status 0 on every path. It fails when
  \<open>subprocess.run\<close> raises an exception other than \<open>CalledProcessError\<close>: the handler
  of \<open>run_ssh_command\<close> does not catch it, nothing is printed, and the interpreter ends
  with status 1.
\<close>

theorem exit_status_uncaught_counterexample:
  "fst (gg_status undecodable_shell Map.empty
          \<lparr>args_host = ''gg1'', args_command = ''info'', args_credstore = None\<rparr>
          \<lparr>ssh_calls = [], printed = []\<rparr>) = 1
   \<and> printed (snd (gg_status undecodable_shell Map.empty
          \<lparr>args_host = ''gg1'', args_command = ''info'', args_credstore = None\<rparr>
          \<lparr>ssh_calls = [], printed = []\<rparr>)) = []"
  by (simp add: gg_status_def main_def get_info_all_def run_ggsci_command_def run_ssh_command_def
      subprocess_run_def undecodable_shell_def hostname_def getenv_def Let_def)

text \<open>
  Claim C9, amended: the script ends with status 0 for every namespace and environment
  when \<open>subprocess.run\<close> raises no exception other than \<open>CalledProcessError\<close>; and with
  the command \<open>lag\<close> and no \<open>--credstore\<close> it prints the error message and ends with
  status 0, whatever the shell does.
\<close>

theorem exit_status_zero_when_caught:
  "((\<forall>line e. sh line = Inl e \<longrightarrow> (\<exists>p. e = CalledProcessError p))
      \<longrightarrow> fst (gg_status sh env args w) = 0)
   \<and> fst (gg_status sh env (args\<lparr>args_command := ''lag'', args_credstore := None\<rparr>) w) = 0
   \<and> printed (snd (gg_status sh env (args\<lparr>args_command := ''lag'', args_credstore := None\<rparr>) w))
       = printed w @ [''Error: --credstore is required for lag command'']"
proof -
  have a: "(\<forall>line e. sh line = Inl e \<longrightarrow> (\<exists>p. e = CalledProcessError p))
      \<longrightarrow> fst (gg_status sh env args w) = 0"
  proof
    assume "\<forall>line e. sh line = Inl e \<longrightarrow> (\<exists>p. e = CalledProcessError p)"
    then have "fst (main sh env args w) = Inr ()"
      using main_returns_when_caught [of sh env args w] by blast
    then show "fst (gg_status sh env args w) = 0"
      by (simp add: gg_status_fst)
  qed
  have b: "fst (gg_status sh env (args\<lparr>args_command := ''lag'', args_credstore := None\<rparr>) w) = 0"
    by (simp add: gg_status_def main_def)
  have c: "printed (snd (gg_status sh env (args\<lparr>args_command := ''lag'', args_credstore := None\<rparr>) w))
       = printed w @ [''Error: --credstore is required for lag command'']"
    by (simp add: gg_status_def main_def print_def)
  from a b c show ?thesis by blast
qed

theorem exit_status_zero_when_caught_witness:
  "auth_failed_shell ''any'' = Inr \<lparr>returncode = 1, stdout = [], stderr = ''auth failed''\<rparr>
   \<and> fst (gg_status auth_failed_shell Map.empty
          \<lparr>args_host = ''gg1'', args_command = ''info'', args_credstore = None\<rparr>
          \<lparr>ssh_calls = [], printed = []\<rparr>) = 0"
proof -
  have h: "\<forall>line e. auth_failed_shell line = Inl e \<longrightarrow> (\<exists>p. e = CalledProcessError p)"
    by (simp add: auth_failed_shell_def)
  have d: "auth_failed_shell ''any'' = Inr \<lparr>returncode = 1, stdout = [], stderr = ''auth failed''\<rparr>"
    by (simp add: auth_failed_shell_def)
  from exit_status_zero_when_caught [of auth_failed_shell Map.empty
      "\<lparr>args_host = ''gg1'', args_command = ''info'', args_credstore = None\<rparr>"
      "\<lparr>ssh_calls = [], printed = []\<rparr>"] h
  have "fst (gg_status auth_failed_shell Map.empty
          \<lparr>args_host = ''gg1'', args_command = ''info'', args_credstore = None\<rparr>
          \<lparr>ssh_calls = [], printed = []\<rparr>) = 0"
    by blast
  with d show ?thesis by blast
qed

end
